theory Spec2Isabelle
  imports Complex_Main
begin

section \<open>The notification dispatch adapter (apprise-runner.py)\<close>

text \<open>
  The script reads one JSON document from standard input, validates it, registers the
  destination URLs with the Apprise client, sends one notification and writes one JSON
  object to standard output. The model below follows \<^verbatim>\<open>main\<close> line by line.
  What Python does outside the script's own text is made explicit: the value that
  \<^verbatim>\<open>json.load\<close> returns (or its failure), the answers of the Apprise library, and
  the interpreter's handling of the exception that ends \<^verbatim>\<open>main\<close>.
\<close>

subsection \<open>Python values\<close>

text \<open>
  A float is a finite number, an infinity or NaN (\<^verbatim>\<open>json.load\<close> accepts
  \<^verbatim>\<open>Infinity\<close> and \<^verbatim>\<open>NaN\<close>). Only its truth value is ever inspected.
\<close>

datatype pyfloat = Finite rat | Infinity | NegInfinity | NaN

text \<open>
  The values \<^verbatim>\<open>json.load\<close> can return. A dict is an association list read from the
  front. A string is a sequence of code points below 256, one \<open>char\<close> each; a string with
  a code point from 256 on has no counterpart in the model.
\<close>

datatype py =
    PNone
  | PBool bool
  | PInt int
  | PFloat pyfloat
  | PStr string
  | PList "py list"
  | PDict "(string \<times> py) list"

text \<open>Truth value testing, as \<^verbatim>\<open>x or y\<close> applies it.\<close>

fun truthy :: "py \<Rightarrow> bool" where
  "truthy PNone = False"
| "truthy (PBool b) = b"
| "truthy (PInt n) = (n \<noteq> 0)"
| "truthy (PFloat f) = (f \<noteq> Finite 0)"
| "truthy (PStr s) = (s \<noteq> [])"
| "truthy (PList xs) = (xs \<noteq> [])"
| "truthy (PDict kvs) = (kvs \<noteq> [])"

text \<open>\<^verbatim>\<open>x or y\<close>\<close>

definition py_or :: "py \<Rightarrow> py \<Rightarrow> py" where
  "py_or x y = (if truthy x then x else y)"

text \<open>\<^verbatim>\<open>d.get(k)\<close>: \<^verbatim>\<open>None\<close> when the key is absent.\<close>

definition dict_get :: "(string \<times> py) list \<Rightarrow> string \<Rightarrow> py" where
  "dict_get d k = (case map_of d k of None \<Rightarrow> PNone | Some v \<Rightarrow> v)"

text \<open>\<^verbatim>\<open>isinstance(x, list)\<close> and \<^verbatim>\<open>isinstance(x, str)\<close>\<close>

fun is_list :: "py \<Rightarrow> bool" where
  "is_list (PList xs) = True"
| "is_list v = False"

fun is_str :: "py \<Rightarrow> bool" where
  "is_str (PStr s) = True"
| "is_str v = False"

text \<open>\<^verbatim>\<open>type(x).__name__\<close>, as it appears in the message of an AttributeError.\<close>

fun type_name :: "py \<Rightarrow> string" where
  "type_name PNone = ''NoneType''"
| "type_name (PBool b) = ''bool''"
| "type_name (PInt n) = ''int''"
| "type_name (PFloat f) = ''float''"
| "type_name (PStr s) = ''str''"
| "type_name (PList xs) = ''list''"
| "type_name (PDict kvs) = ''dict''"

subsection \<open>String methods\<close>

text \<open>
  \<^verbatim>\<open>str.lower\<close>. Below 256 the upper-case letters are A to Z (65 to 90) and the
  accented capitals 192 to 222 without the multiplication sign 215; each has its
  lower-case letter 32 places further on, and every other code point is left as it is.
\<close>

definition lower_char :: "char \<Rightarrow> char" where
  "lower_char c =
     (let n = (of_char c :: nat) in
      if (65 \<le> n \<and> n \<le> 90) \<or> (192 \<le> n \<and> n \<le> 222 \<and> n \<noteq> 215)
      then char_of (n + 32) else c)"

definition lower :: "string \<Rightarrow> string" where
  "lower s = map lower_char s"

text \<open>
  \<^verbatim>\<open>str.strip\<close> removes the white space of \<^verbatim>\<open>str.isspace\<close> at both ends. Below 256
  that is the range 9 to 13 (tab, line feed, vertical tab, form feed, carriage return),
  the separators 28 to 31, the space 32, the next-line control 133 and the no-break
  space 160.
\<close>

definition is_space :: "char \<Rightarrow> bool" where
  "is_space c =
     (let n = (of_char c :: nat) in
      (9 \<le> n \<and> n \<le> 13) \<or> (28 \<le> n \<and> n \<le> 32) \<or> n = 133 \<or> n = 160)"

definition strip :: "string \<Rightarrow> string" where
  "strip s = rev (dropWhile is_space (rev (dropWhile is_space s)))"

subsection \<open>The Apprise library\<close>

text \<open>
  A call of the library returns or raises an \<^verbatim>\<open>Exception\<close>; \<open>Raised\<close> carries
  \<^verbatim>\<open>str(exc)\<close>. The script only tests the truth value of what \<^verbatim>\<open>add\<close> returns and
  applies \<^verbatim>\<open>bool\<close> to what \<^verbatim>\<open>notify\<close> returns, so both return a \<open>bool\<close> here.
\<close>

datatype 'a outcome = Returned 'a | Raised string

text \<open>
  The library is opaque to the script, so it is a parameter: \<open>'s\<close> is the state of the
  client object, \<open>Apprise\<close> the state of a new client, \<open>add\<close> may change the state
  (also when it raises), \<open>notify\<close> is the last call made on the object.
\<close>

record 's apprise =
  Apprise :: 's
  add :: "string \<Rightarrow> 's \<Rightarrow> bool outcome \<times> 's"
  notify :: "string \<Rightarrow> string \<Rightarrow> string \<Rightarrow> 's \<Rightarrow> bool outcome"

subsection \<open>Runs\<close>

text \<open>
  What ends \<^verbatim>\<open>main\<close>: it never returns, it raises \<^verbatim>\<open>SystemExit\<close> with a code, or an
  AttributeError (the type's name, the attribute) escapes from it.
\<close>

datatype exc = SystemExit int | AttributeError string string

text \<open>
  The effects of a run in order. \<open>Stdout_write obj\<close> is
  \<^verbatim>\<open>sys.stdout.write(json.dumps(obj) + "\n")\<close>: one JSON text followed by a newline.
  \<open>Add\<close> and \<open>Notify\<close> are the calls made on the client, each with its arguments and
  with what the library answered.
\<close>

datatype event =
    Stdout_write py
  | Stdout_flush
  | Stderr_write string
  | Stderr_flush
  | Add string "bool outcome"
  | Notify string string string "bool outcome"

record run =
  trace :: "event list"
  raised :: exc

text \<open>
  \<^verbatim>\<open>_fail(message)\<close> with the default exit code 1 (no call site passes another), after
  the effects \<open>tr\<close>.
\<close>

definition error_obj :: "string \<Rightarrow> py" where
  "error_obj message = PDict [(''success'', PBool False), (''error'', PStr message)]"

definition fail :: "event list \<Rightarrow> string \<Rightarrow> run" where
  "fail tr message =
     \<lparr>trace = tr @ [Stdout_write (error_obj message), Stdout_flush], raised = SystemExit 1\<rparr>"

text \<open>An exception that nothing catches: no further effect of the script.\<close>

definition uncaught :: "event list \<Rightarrow> exc \<Rightarrow> run" where
  "uncaught tr e = \<lparr>trace = tr, raised = e\<rparr>"

subsection \<open>Lines 14 to 31: reading and validating the request\<close>

record request =
  urls :: "py list"
  title :: string
  body :: string
  notify_type :: string

text \<open>\<^verbatim>\<open>x.lower()\<close>: only a \<^verbatim>\<open>str\<close> has the method.\<close>

fun lower_method :: "py \<Rightarrow> exc + string" where
  "lower_method (PStr s) = Inr (lower s)"
| "lower_method v = Inl (AttributeError (type_name v) ''lower'')"

text \<open>Lines 27 and 28.\<close>

definition known_type :: "string \<Rightarrow> string" where
  "known_type nt =
     (if nt \<in> set [''info'', ''success'', ''warning'', ''failure''] then nt else ''info'')"

text \<open>Lines 23 to 31, for the dict \<open>payload\<close> and the list \<open>us\<close> of line 19.\<close>

definition validate_fields :: "(string \<times> py) list \<Rightarrow> py list \<Rightarrow> run + request" where
  "validate_fields payload us =
     (let t = py_or (dict_get payload ''title'') (PStr '''');
          b = py_or (dict_get payload ''body'') (PStr '''')
      in case lower_method (py_or (dict_get payload ''notifyType'') (PStr ''info'')) of
           Inl e \<Rightarrow> Inl (uncaught [] e)
         | Inr nt \<Rightarrow>
             (case (t, b) of
                (PStr ts, PStr bs) \<Rightarrow>
                  Inr \<lparr>urls = us, title = ts, body = bs, notify_type = known_type nt\<rparr>
              | _ \<Rightarrow> Inl (fail [] ''Invalid title/body'')))"

text \<open>
  Lines 14 to 31. \<open>stdin\<close> is what \<^verbatim>\<open>json.load(sys.stdin)\<close> gives: \<open>None\<close> when it
  raises, the decoded value otherwise. Only a dict has \<^verbatim>\<open>get\<close>.
\<close>

definition parse_request :: "py option \<Rightarrow> run + request" where
  "parse_request stdin =
     (case stdin of
        None \<Rightarrow> Inl (fail [] ''Invalid JSON payload'')
      | Some (PDict payload) \<Rightarrow>
          (case py_or (dict_get payload ''urls'') (PList []) of
             PList us \<Rightarrow> validate_fields payload us
           | _ \<Rightarrow> Inl (fail [] ''Invalid urls: expected list''))
      | Some v \<Rightarrow> Inl (uncaught [] (AttributeError (type_name v) ''get'')))"

subsection \<open>Lines 33 to 47: registering the destinations\<close>

text \<open>
  The loop over \<^verbatim>\<open>urls\<close>. The state is the client object, the counter \<^verbatim>\<open>added\<close>
  and the calls made so far.
\<close>

fun register :: "'s apprise \<Rightarrow> py list \<Rightarrow> 's \<times> nat \<times> event list \<Rightarrow> 's \<times> nat \<times> event list" where
  "register lib [] st = st"
| "register lib (PStr raw # rest) (apobj, added, calls) =
     (let url = strip raw in
      if url = [] then register lib rest (apobj, added, calls)
      else
        (case add lib url apobj of
           (Returned ok, apobj') \<Rightarrow>
             register lib rest
               (apobj', if ok then added + 1 else added, calls @ [Add url (Returned ok)])
         | (Raised e, apobj') \<Rightarrow>
             register lib rest (apobj', added, calls @ [Add url (Raised e)])))"
| "register lib (v # rest) st = register lib rest st"

subsection \<open>The whole of main\<close>

definition result_obj :: "bool \<Rightarrow> nat \<Rightarrow> py" where
  "result_obj ok added = PDict [(''success'', PBool ok), (''destinations'', PInt (int added))]"

definition main :: "'s apprise \<Rightarrow> py option \<Rightarrow> run" where
  "main lib stdin =
     (case parse_request stdin of
        Inl r \<Rightarrow> r
      | Inr req \<Rightarrow>
          (case register lib (urls req) (Apprise lib, 0, []) of
             (apobj, added, calls) \<Rightarrow>
               if added = 0 then fail calls ''No valid notification destinations''
               else
                 (case notify lib (title req) (body req) (notify_type req) apobj of
                    Raised e \<Rightarrow>
                      fail
                        (calls @
                         [Notify (title req) (body req) (notify_type req) (Raised e),
                          Stderr_write (''Apprise notify failed: '' @ e @ [CHR 0x0A]),
                          Stderr_flush])
                        ''Apprise notify failed''
                  | Returned ok \<Rightarrow>
                      \<lparr>trace =
                         calls @
                         [Notify (title req) (body req) (notify_type req) (Returned ok),
                          Stdout_write (result_obj ok added),
                          Stdout_flush],
                       raised = SystemExit (if ok then 0 else 1)\<rparr>)))"

subsection \<open>What the calling process observes\<close>

text \<open>The JSON objects written to standard output, in order.\<close>

fun stdout_of :: "event list \<Rightarrow> py list" where
  "stdout_of [] = []"
| "stdout_of (Stdout_write obj # es) = obj # stdout_of es"
| "stdout_of (e # es) = stdout_of es"

text \<open>
  What reaches standard error: the texts the script writes and, when an exception other
  than \<^verbatim>\<open>SystemExit\<close> escapes from \<^verbatim>\<open>main\<close>, the traceback the interpreter prints.
\<close>

datatype err_text = Text string | Traceback exc

fun stderr_writes :: "event list \<Rightarrow> err_text list" where
  "stderr_writes [] = []"
| "stderr_writes (Stderr_write s # es) = Text s # stderr_writes es"
| "stderr_writes (e # es) = stderr_writes es"

fun traceback :: "exc \<Rightarrow> err_text list" where
  "traceback (SystemExit c) = []"
| "traceback e = [Traceback e]"

definition stderr_of :: "run \<Rightarrow> err_text list" where
  "stderr_of r = stderr_writes (trace r) @ traceback (raised r)"

text \<open>
  The exit status: the code of \<^verbatim>\<open>SystemExit\<close>, and 1 for any other exception that
  escapes.
\<close>

fun exit_code :: "exc \<Rightarrow> int" where
  "exit_code (SystemExit c) = c"
| "exit_code e = 1"

text \<open>The destinations registered in a run: the \<^verbatim>\<open>add\<close> calls that returned true.\<close>

fun registered :: "event list \<Rightarrow> nat" where
  "registered [] = 0"
| "registered (Add url (Returned True) # es) = Suc (registered es)"
| "registered (e # es) = registered es"

text \<open>The URLs passed to \<^verbatim>\<open>add\<close>, and the number of \<^verbatim>\<open>notify\<close> calls.\<close>

fun add_calls :: "event list \<Rightarrow> string list" where
  "add_calls [] = []"
| "add_calls (Add url res # es) = url # add_calls es"
| "add_calls (e # es) = add_calls es"

fun notify_calls :: "event list \<Rightarrow> (string \<times> string \<times> string) list" where
  "notify_calls [] = []"
| "notify_calls (Notify t b nt res # es) = (t, b, nt) # notify_calls es"
| "notify_calls (e # es) = notify_calls es"

text \<open>An event that is a call of \<^verbatim>\<open>add\<close>.\<close>

fun is_add :: "event \<Rightarrow> bool" where
  "is_add (Add url res) = True"
| "is_add e = False"

text \<open>
  The entries the loop passes over without calling the library (lines 37 to 41): those
  that are no string, and the strings that are empty once trimmed.
\<close>

fun skipped :: "py \<Rightarrow> bool" where
  "skipped (PStr raw) = (strip raw = [])"
| "skipped v = True"

text \<open>The trimmed URLs the loop hands to \<^verbatim>\<open>add\<close>, in order.\<close>

fun candidates :: "py list \<Rightarrow> string list" where
  "candidates [] = []"
| "candidates (PStr raw # rest) =
     (if strip raw = [] then candidates rest else strip raw # candidates rest)"
| "candidates (v # rest) = candidates rest"

subsection \<open>A library for concrete runs\<close>

text \<open>
  A client that counts its destinations: \<^verbatim>\<open>add\<close> accepts the URLs that start with
  \<^verbatim>\<open>mailto:\<close>, raises on those that start with \<^verbatim>\<open>!\<close> and returns false on the
  rest; \<^verbatim>\<open>notify\<close> raises when the title is \<^verbatim>\<open>boom\<close> and otherwise returns whether
  the body is not \<^verbatim>\<open>lost\<close>.
\<close>

definition sample_lib :: "nat apprise" where
  "sample_lib =
     \<lparr>Apprise = 0,
      add = (\<lambda>url n.
        if take 7 url = ''mailto:'' then (Returned True, Suc n)
        else if take 1 url = ''!'' then (Raised ''bad url'', n)
        else (Returned False, n)),
      notify = (\<lambda>t b nt n.
        if t = ''boom'' then Raised ''no route'' else Returned (b \<noteq> ''lost''))\<rparr>"

section \<open>Properties\<close>

subsection \<open>Evaluation helpers\<close>

lemma stdout_of_append: "stdout_of (xs @ ys) = stdout_of xs @ stdout_of ys"
  by (induction xs rule: stdout_of.induct) simp_all

lemma stderr_writes_append: "stderr_writes (xs @ ys) = stderr_writes xs @ stderr_writes ys"
  by (induction xs rule: stderr_writes.induct) simp_all

subsection \<open>The phases of a run\<close>

lemma parse_request_Inl:
  assumes "parse_request stdin = Inl r"
  shows "(\<exists>m. r = fail [] m) \<or> (\<exists>ty attr. r = uncaught [] (AttributeError ty attr))"
  using assms
  by (auto simp: parse_request_def validate_fields_def Let_def
      split: option.splits py.splits sum.splits elim!: lower_method.elims)

lemma register_acc:
  "register lib us (s, a, c) = (s', a', c') \<Longrightarrow>
     \<exists>new. c' = c @ new \<and> list_all is_add new \<and> a' = a + registered new
       \<and> length new \<le> length us"
proof (induction lib us "(s, a, c)" arbitrary: s a c rule: register.induct)
  case (2 lib raw rest apobj added calls)
  then show ?case
    by (fastforce simp: Let_def split: if_splits prod.splits outcome.splits)
qed fastforce+

lemma register_start:
  assumes "register lib us (s, 0, []) = (s', added, calls)"
  shows "list_all is_add calls \<and> added = registered calls \<and> length calls \<le> length us"
  using register_acc [OF assms] by simp

lemma adds_stdout: "list_all is_add es \<Longrightarrow> stdout_of es = []"
  by (induction es rule: stdout_of.induct) simp_all

lemma adds_stderr: "list_all is_add es \<Longrightarrow> stderr_writes es = []"
  by (induction es rule: stderr_writes.induct) simp_all

lemma adds_notify: "list_all is_add es \<Longrightarrow> notify_calls es = []"
  by (induction es rule: notify_calls.induct) simp_all

lemma registered_append: "registered (xs @ ys) = registered xs + registered ys"
  by (induction xs rule: registered.induct) simp_all

lemma notify_calls_append: "notify_calls (xs @ ys) = notify_calls xs @ notify_calls ys"
  by (induction xs rule: notify_calls.induct) simp_all

lemma add_calls_append: "add_calls (xs @ ys) = add_calls xs @ add_calls ys"
  by (induction xs rule: add_calls.induct) simp_all

lemma registered_le_length: "registered es \<le> length es"
  by (induction es rule: registered.induct) simp_all

lemma main_cases [consumes 0, case_names rejected no_destination notify_raised sent]:
  obtains
    r where "parse_request stdin = Inl r" and "main lib stdin = r"
  | req apobj calls where "parse_request stdin = Inr req"
      and "register lib (urls req) (Apprise lib, 0, []) = (apobj, 0, calls)"
      and "main lib stdin = fail calls ''No valid notification destinations''"
  | req apobj added calls e where "parse_request stdin = Inr req"
      and "register lib (urls req) (Apprise lib, 0, []) = (apobj, added, calls)"
      and "added \<noteq> 0"
      and "notify lib (title req) (body req) (notify_type req) apobj = Raised e"
      and "main lib stdin =
             fail (calls @ [Notify (title req) (body req) (notify_type req) (Raised e),
                            Stderr_write (''Apprise notify failed: '' @ e @ [CHR 0x0A]),
                            Stderr_flush])
               ''Apprise notify failed''"
  | req apobj added calls ok where "parse_request stdin = Inr req"
      and "register lib (urls req) (Apprise lib, 0, []) = (apobj, added, calls)"
      and "added \<noteq> 0"
      and "notify lib (title req) (body req) (notify_type req) apobj = Returned ok"
      and "main lib stdin =
             \<lparr>trace = calls @ [Notify (title req) (body req) (notify_type req) (Returned ok),
                               Stdout_write (result_obj ok added), Stdout_flush],
              raised = SystemExit (if ok then 0 else 1)\<rparr>"
proof (cases "parse_request stdin")
  case (Inl r)
  then show ?thesis using that(1) by (simp add: main_def)
next
  case (Inr req)
  obtain apobj added calls
    where reg: "register lib (urls req) (Apprise lib, 0, []) = (apobj, added, calls)"
    by (cases "register lib (urls req) (Apprise lib, 0, [])") auto
  show ?thesis
  proof (cases "added = 0")
    case True
    with Inr reg show ?thesis using that(2) by (simp add: main_def)
  next
    case False
    show ?thesis
    proof (cases "notify lib (title req) (body req) (notify_type req) apobj")
      case (Returned ok)
      with Inr reg False show ?thesis using that(4) by (simp add: main_def)
    next
      case (Raised e)
      with Inr reg False show ?thesis using that(3) by (simp add: main_def)
    qed
  qed
qed

lemma parse_request_Inr:
  assumes "parse_request stdin = Inr req"
  shows "\<exists>payload s. stdin = Some (PDict payload)
    \<and> py_or (dict_get payload ''urls'') (PList []) = PList (urls req)
    \<and> py_or (dict_get payload ''title'') (PStr []) = PStr (title req)
    \<and> py_or (dict_get payload ''body'') (PStr []) = PStr (body req)
    \<and> py_or (dict_get payload ''notifyType'') (PStr ''info'') = PStr s
    \<and> notify_type req = known_type (lower s)"
  using assms
  by (auto simp: parse_request_def validate_fields_def Let_def
      split: option.splits py.splits sum.splits elim!: lower_method.elims)

lemma register_skipped: "list_all skipped us \<Longrightarrow> register lib us st = st"
  by (induction lib us st rule: register.induct) simp_all

lemma register_rejected:
  "\<forall>url s. fst (add lib url s) \<noteq> Returned True \<Longrightarrow>
     fst (snd (register lib us (s, a, c))) = a"
proof (induction lib us "(s, a, c)" arbitrary: s a c rule: register.induct)
  case (2 lib raw rest apobj added calls)
  show ?case
  proof (cases "strip raw = []")
    case True
    with 2 show ?thesis by simp
  next
    case False
    obtain res apobj' where a: "add lib (strip raw) apobj = (res, apobj')"
      by (cases "add lib (strip raw) apobj") auto
    with 2(4) have "res \<noteq> Returned True" by (metis fst_conv)
    with 2 False a show ?thesis
      by (cases res) (auto simp: Let_def)
  qed
qed simp_all

lemma register_add_calls:
  "register lib us (s, a, c) = (s', a', c') \<Longrightarrow> add_calls c' = add_calls c @ candidates us"
proof (induction lib us "(s, a, c)" arbitrary: s a c rule: register.induct)
  case (2 lib raw rest apobj added calls)
  then show ?case
    by (fastforce simp: Let_def add_calls_append split: if_splits prod.splits outcome.splits)
qed fastforce+

lemma py_or_truthy: "truthy x \<Longrightarrow> py_or x y = x"
  by (simp add: py_or_def)

lemma urls_list_or_falsy:
  "\<not> truthy u \<or> is_list u \<Longrightarrow> \<exists>us. py_or u (PList []) = PList us"
  by (cases u) (auto simp: py_or_def)

lemma type_str_or_falsy:
  "\<not> truthy v \<or> is_str v \<Longrightarrow> \<exists>s. lower_method (py_or v (PStr ''info'')) = Inr s"
  by (cases v) (auto simp: py_or_def)

lemma candidates_length: "length (candidates us) \<le> length us"
  by (induction us rule: candidates.induct) auto

lemma add_calls_adds: "list_all is_add es \<Longrightarrow> length (add_calls es) = length es"
  by (induction es rule: add_calls.induct) simp_all

lemma title_body_rejected:
  assumes "(truthy (dict_get payload ''title'') \<and> \<not> is_str (dict_get payload ''title''))
       \<or> (truthy (dict_get payload ''body'') \<and> \<not> is_str (dict_get payload ''body''))"
  shows "\<exists>r. parse_request (Some (PDict payload)) = Inl r"
proof (cases "parse_request (Some (PDict payload))")
  case (Inl r)
  then show ?thesis by simp
next
  case (Inr req)
  from parse_request_Inr [OF Inr]
  have "py_or (dict_get payload ''title'') (PStr []) = PStr (title req)"
    and "py_or (dict_get payload ''body'') (PStr []) = PStr (body req)"
    by auto
  with assms show ?thesis
    by (auto simp: py_or_def split: if_splits)
qed

lemma strip_empty_iff: "strip s = [] \<longleftrightarrow> list_all is_space s"
proof
  assume "strip s = []"
  then have a: "\<forall>c\<in>set (dropWhile is_space s). is_space c"
    by (simp add: strip_def)
  have "dropWhile is_space s = []"
  proof (rule ccontr)
    assume n: "dropWhile is_space s \<noteq> []"
    then have "\<not> is_space (hd (dropWhile is_space s))" by (rule hd_dropWhile)
    with a n show False by (meson hd_in_set)
  qed
  then show "list_all is_space s"
    by (simp add: list_all_iff)
next
  assume "list_all is_space s"
  then show "strip s = []"
    by (auto simp: strip_def list_all_iff dest: set_dropWhileD)
qed

lemma skipped_blank:
  "\<forall>raw\<in>set us. \<forall>s. raw = PStr s \<longrightarrow> list_all is_space s \<Longrightarrow> list_all skipped us"
proof (induction us)
  case Nil
  then show ?case by simp
next
  case (Cons raw us)
  then show ?case by (cases raw) (simp_all add: strip_empty_iff)
qed

lemma parse_request_same:
  assumes "py_or (dict_get p ''urls'') (PList []) = py_or (dict_get p' ''urls'') (PList [])"
    and "dict_get p ''title'' = dict_get p' ''title''"
    and "dict_get p ''body'' = dict_get p' ''body''"
    and "dict_get p ''notifyType'' = dict_get p' ''notifyType''"
  shows "parse_request (Some (PDict p)) = parse_request (Some (PDict p'))"
proof -
  have vf: "validate_fields p = validate_fields p'"
    by (rule ext) (simp add: validate_fields_def assms)
  have pr: "parse_request (Some (PDict q))
      = (case py_or (dict_get q ''urls'') (PList []) of
           PList us \<Rightarrow> validate_fields q us
         | _ \<Rightarrow> Inl (fail [] ''Invalid urls: expected list''))" for q
    by (simp add: parse_request_def)
  show ?thesis
    by (simp only: pr assms(1) vf)
qed

lemma rejected_stdout:
  assumes "parse_request (Some v) = Inl r"
  shows "stdout_of (trace r)
    \<noteq> [PDict [(''success'', PBool False), (''error'', PStr ''Invalid JSON payload'')]]"
  using assms
  by (auto simp: parse_request_def validate_fields_def Let_def fail_def uncaught_def error_obj_def
      split: py.splits sum.splits elim!: lower_method.elims)

subsection \<open>Runs in which no AttributeError escapes\<close>

text \<open>
  The type handed to \<^verbatim>\<open>notify\<close> is always one of the four known ones: it is the
  lower-cased value of \<^verbatim>\<open>notifyType\<close> when that is a known type, and \<^verbatim>\<open>info\<close>
  otherwise (also when the field is absent or falsy). A call of \<^verbatim>\<open>notify\<close> is only
  reached when the value is falsy or a string.
\<close>

lemma known_type_range:
  "known_type nt \<in> set [''info'', ''success'', ''warning'', ''failure'']"
  by (simp add: known_type_def)

lemma notify_receives_known_type:
  assumes "Notify t b nt res \<in> set (trace (main lib stdin))"
  shows "\<exists>payload s. stdin = Some (PDict payload)
    \<and> py_or (dict_get payload ''notifyType'') (PStr ''info'') = PStr s
    \<and> nt = known_type (lower s)
    \<and> nt \<in> set [''info'', ''success'', ''warning'', ''failure'']"
proof (cases rule: main_cases [of stdin lib])
  case (rejected r)
  with parse_request_Inl [OF rejected(1)] assms show ?thesis
    by (auto simp: fail_def uncaught_def)
next
  case (no_destination req apobj calls)
  with register_start [OF no_destination(2)] assms show ?thesis
    by (auto simp: fail_def list_all_iff)
next
  case (notify_raised req apobj added calls e)
  from register_start [OF notify_raised(2)] have "list_all is_add calls" by simp
  with assms notify_raised(5) have "nt = notify_type req"
    by (auto simp: fail_def list_all_iff)
  with parse_request_Inr [OF notify_raised(1)] known_type_range show ?thesis
    by auto
next
  case (sent req apobj added calls ok)
  from register_start [OF sent(2)] have "list_all is_add calls" by simp
  with assms sent(5) have "nt = notify_type req"
    by (auto simp: list_all_iff)
  with parse_request_Inr [OF sent(1)] known_type_range show ?thesis
    by auto
qed

text \<open>
  An exception raised by \<^verbatim>\<open>notify\<close> is caught: one diagnostic line goes to standard
  error, the error object goes to standard output and the exit code is 1. The script
  itself writes to standard error on no other path.
\<close>

lemma notify_exception_reported:
  assumes "Notify t b nt (Raised e) \<in> set (trace (main lib stdin))"
  shows "stdout_of (trace (main lib stdin)) = [error_obj ''Apprise notify failed'']
    \<and> exit_code (raised (main lib stdin)) = 1
    \<and> stderr_of (main lib stdin) = [Text (''Apprise notify failed: '' @ e @ [CHR 0x0A])]"
proof (cases rule: main_cases [of stdin lib])
  case (rejected r)
  with parse_request_Inl [OF rejected(1)] assms show ?thesis
    by (auto simp: fail_def uncaught_def)
next
  case (no_destination req apobj calls)
  with register_start [OF no_destination(2)] assms show ?thesis
    by (auto simp: fail_def list_all_iff)
next
  case (notify_raised req apobj added calls e')
  from register_start [OF notify_raised(2)] have adds: "list_all is_add calls" by simp
  with assms notify_raised(5) have "e' = e"
    by (auto simp: fail_def list_all_iff)
  with notify_raised(5) adds show ?thesis
    by (simp add: fail_def stdout_of_append adds_stdout stderr_of_def stderr_writes_append
        adds_stderr)
next
  case (sent req apobj added calls ok)
  with register_start [OF sent(2)] assms show ?thesis
    by (auto simp: list_all_iff)
qed

lemma stderr_write_after_notify_failure:
  assumes "stderr_writes (trace (main lib stdin)) \<noteq> []"
  shows "\<exists>t b nt e. Notify t b nt (Raised e) \<in> set (trace (main lib stdin))"
proof (cases rule: main_cases [of stdin lib])
  case (rejected r)
  with parse_request_Inl [OF rejected(1)] assms show ?thesis
    by (auto simp: fail_def uncaught_def)
next
  case (no_destination req apobj calls)
  with register_start [OF no_destination(2)] assms show ?thesis
    by (simp add: fail_def stderr_writes_append adds_stderr)
next
  case (notify_raised req apobj added calls e)
  then show ?thesis by (auto simp: fail_def)
next
  case (sent req apobj added calls ok)
  with register_start [OF sent(2)] assms show ?thesis
    by (simp add: stderr_writes_append adds_stderr)
qed

text \<open>
  Every run that ends in \<^verbatim>\<open>SystemExit\<close> has written exactly one object to standard
  output, as its last write, and has flushed it.
\<close>

lemma one_object_when_exiting:
  assumes "raised (main lib stdin) = SystemExit c"
  shows "\<exists>tr obj. trace (main lib stdin) = tr @ [Stdout_write obj, Stdout_flush]
    \<and> stdout_of tr = []"
proof (cases rule: main_cases [of stdin lib])
  case (rejected r)
  with parse_request_Inl [OF rejected(1)] assms show ?thesis
    by (auto simp: fail_def uncaught_def)
next
  case (no_destination req apobj calls)
  with register_start [OF no_destination(2)] show ?thesis
    by (simp add: fail_def adds_stdout)
next
  case (notify_raised req apobj added calls e)
  from register_start [OF notify_raised(2)] have adds: "list_all is_add calls" by simp
  have "stdout_of (calls @ [Notify (title req) (body req) (notify_type req) (Raised e),
          Stderr_write (''Apprise notify failed: '' @ e @ [CHR 0x0A]), Stderr_flush]) = []"
    by (simp add: stdout_of_append adds_stdout [OF adds])
  with notify_raised(5) show ?thesis
    unfolding fail_def by (metis run.select_convs(1))
next
  case (sent req apobj added calls ok)
  from register_start [OF sent(2)] have adds: "list_all is_add calls" by simp
  have "stdout_of (calls @ [Notify (title req) (body req) (notify_type req) (Returned ok)]) = []"
    by (simp add: stdout_of_append adds_stdout [OF adds])
  moreover have "trace (main lib stdin)
      = (calls @ [Notify (title req) (body req) (notify_type req) (Returned ok)])
        @ [Stdout_write (result_obj ok added), Stdout_flush]"
    by (simp add: sent(5))
  ultimately show ?thesis by blast
qed

subsection \<open>Concrete runs\<close>

lemma mixed_run:
  "main sample_lib
     (Some (PDict [(''urls'', PList [PStr ''  mailto://a@b.c '', PInt 3, PStr ''  '',
                                     PStr ''!x'', PStr ''json://h'']),
                   (''notifyType'', PStr ''URGENT''), (''title'', PStr ''hi''),
                   (''body'', PStr ''lost'')]))
   = \<lparr>trace = [Add ''mailto://a@b.c'' (Returned True), Add ''!x'' (Raised ''bad url''),
                Add ''json://h'' (Returned False),
                Notify ''hi'' ''lost'' ''info'' (Returned False),
                Stdout_write (result_obj False 1), Stdout_flush],
       raised = SystemExit 1\<rparr>"
  by code_simp

lemma single_request:
  "parse_request
     (Some (PDict [(''urls'', PList [PStr ''  mailto://a@b.c '']),
                   (''title'', PStr ''hi''), (''body'', PStr ''there'')]))
   = Inr \<lparr>urls = [PStr ''  mailto://a@b.c ''], title = ''hi'', body = ''there'',
          notify_type = ''info''\<rparr>"
  by code_simp

lemma single_register:
  "register sample_lib
     (urls \<lparr>urls = [PStr ''  mailto://a@b.c ''], title = ''hi'', body = ''there'',
            notify_type = ''info''\<rparr>)
     (Apprise sample_lib, 0, [])
   = (Suc 0, Suc 0, [Add ''mailto://a@b.c'' (Returned True)])"
  by code_simp

lemma single_notify:
  "notify sample_lib
     (title \<lparr>urls = [PStr ''  mailto://a@b.c ''], title = ''hi'', body = ''there'',
            notify_type = ''info''\<rparr>)
     (body \<lparr>urls = [PStr ''  mailto://a@b.c ''], title = ''hi'', body = ''there'',
            notify_type = ''info''\<rparr>)
     (notify_type \<lparr>urls = [PStr ''  mailto://a@b.c ''], title = ''hi'', body = ''there'',
            notify_type = ''info''\<rparr>)
     (Suc 0)
   = Returned True"
  by code_simp

lemma mixed_request:
  "parse_request
     (Some (PDict [(''urls'', PList [PStr ''  mailto://a@b.c '', PInt 3, PStr ''  '',
                                     PStr ''!x'', PStr ''json://h'']),
                   (''notifyType'', PStr ''URGENT''), (''title'', PStr ''hi''),
                   (''body'', PStr ''lost'')]))
   = Inr \<lparr>urls = [PStr ''  mailto://a@b.c '', PInt 3, PStr ''  '', PStr ''!x'', PStr ''json://h''],
          title = ''hi'', body = ''lost'', notify_type = ''info''\<rparr>"
  by code_simp

lemma mixed_register:
  "register sample_lib
     (urls \<lparr>urls = [PStr ''  mailto://a@b.c '', PInt 3, PStr ''  '', PStr ''!x'', PStr ''json://h''],
          title = ''hi'', body = ''lost'', notify_type = ''info''\<rparr>)
     (Apprise sample_lib, 0, [])
   = (Suc 0, Suc 0,
      [Add ''mailto://a@b.c'' (Returned True), Add ''!x'' (Raised ''bad url''),
       Add ''json://h'' (Returned False)])"
  by code_simp

lemma mixed_notify:
  "notify sample_lib
     (title \<lparr>urls = [PStr ''  mailto://a@b.c '', PInt 3, PStr ''  '', PStr ''!x'', PStr ''json://h''],
          title = ''hi'', body = ''lost'', notify_type = ''info''\<rparr>)
     (body \<lparr>urls = [PStr ''  mailto://a@b.c '', PInt 3, PStr ''  '', PStr ''!x'', PStr ''json://h''],
          title = ''hi'', body = ''lost'', notify_type = ''info''\<rparr>)
     (notify_type \<lparr>urls = [PStr ''  mailto://a@b.c '', PInt 3, PStr ''  '', PStr ''!x'', PStr ''json://h''],
          title = ''hi'', body = ''lost'', notify_type = ''info''\<rparr>)
     (Suc 0)
   = Returned False"
  by code_simp

lemma blank_request:
  "parse_request (Some (PDict [(''urls'', PList [PInt 3,
            PStr [CHR 0x09, CHR 0x0A, CHR 0x0B, CHR 0x0C, CHR 0x0D, CHR 0x1C, CHR 0x1D, CHR 0x1E,
                  CHR 0x1F, CHR 0x20, CHR 0x85, CHR 0xA0],
            PNone, PStr []]), (''title'', PStr ''hi'')]))
   = Inr \<lparr>urls = [PInt 3,
            PStr [CHR 0x09, CHR 0x0A, CHR 0x0B, CHR 0x0C, CHR 0x0D, CHR 0x1C, CHR 0x1D, CHR 0x1E,
                  CHR 0x1F, CHR 0x20, CHR 0x85, CHR 0xA0],
            PNone, PStr []], title = ''hi'', body = [], notify_type = ''info''\<rparr>"
  by code_simp

lemma blank_register:
  "register sample_lib
     (urls \<lparr>urls = [PInt 3,
            PStr [CHR 0x09, CHR 0x0A, CHR 0x0B, CHR 0x0C, CHR 0x0D, CHR 0x1C, CHR 0x1D, CHR 0x1E,
                  CHR 0x1F, CHR 0x20, CHR 0x85, CHR 0xA0],
            PNone, PStr []], title = ''hi'', body = [], notify_type = ''info''\<rparr>)
     (Apprise sample_lib, 0, [])
   = (0, 0, [])"
  by code_simp

lemma blank_entries:
  "\<forall>raw\<in>set (urls \<lparr>urls = [PInt 3,
            PStr [CHR 0x09, CHR 0x0A, CHR 0x0B, CHR 0x0C, CHR 0x0D, CHR 0x1C, CHR 0x1D, CHR 0x1E,
                  CHR 0x1F, CHR 0x20, CHR 0x85, CHR 0xA0],
            PNone, PStr []], title = ''hi'', body = [], notify_type = ''info''\<rparr>).
     \<forall>s. raw = PStr s \<longrightarrow> list_all is_space s"
  by (simp add: is_space_def)

lemma refused_request:
  "parse_request (Some (PDict [(''urls'', PList [PStr ''!x'', PStr (CHR 0xA0 # ''json://h'' @ [CHR 0x09])]), (''title'', PStr ''hi'')]))
   = Inr \<lparr>urls = [PStr ''!x'', PStr (CHR 0xA0 # ''json://h'' @ [CHR 0x09])], title = ''hi'', body = [], notify_type = ''info''\<rparr>"
  by code_simp

lemma refused_register:
  "register sample_lib
     (urls \<lparr>urls = [PStr ''!x'', PStr (CHR 0xA0 # ''json://h'' @ [CHR 0x09])], title = ''hi'', body = [], notify_type = ''info''\<rparr>)
     (Apprise sample_lib, 0, [])
   = (0, 0, [Add ''!x'' (Raised ''bad url''), Add ''json://h'' (Returned False)])"
  by code_simp

lemma refused_count:
  "registered [Add ''!x'' (Raised ''bad url''), Add ''json://h'' (Returned False)] = 0"
  by simp

subsection \<open>The claims\<close>

text \<open>
  C6. When \<^verbatim>\<open>json.load\<close> fails, the run consists of one write of the object
  \<^verbatim>\<open>{"success": false, "error": "Invalid JSON payload"}\<close> to standard output, its
  flush and \<^verbatim>\<open>SystemExit(1)\<close>: nothing reaches standard error and the library is
  never called. No other input gives that output: whenever \<^verbatim>\<open>json.load\<close> returns a
  value, whatever it is and whatever the library answers, standard output differs.
\<close>

theorem invalid_json_payload:
  "main lib None
     = \<lparr>trace = [Stdout_write (PDict [(''success'', PBool False),
                                      (''error'', PStr ''Invalid JSON payload'')]),
                  Stdout_flush],
        raised = SystemExit 1\<rparr>
   \<and> stdout_of (trace (main lib None))
     = [PDict [(''success'', PBool False), (''error'', PStr ''Invalid JSON payload'')]]
   \<and> exit_code (raised (main lib None)) = 1
   \<and> stderr_of (main lib None) = []
   \<and> (stdout_of (trace (main lib stdin))
       = [PDict [(''success'', PBool False), (''error'', PStr ''Invalid JSON payload'')]]
      \<longleftrightarrow> stdin = None)"
proof -
  have none: "main lib None = fail [] ''Invalid JSON payload''"
    by (simp add: main_def parse_request_def)
  have only: "stdout_of (trace (main lib (Some v)))
      \<noteq> [PDict [(''success'', PBool False), (''error'', PStr ''Invalid JSON payload'')]]" for v
  proof (cases rule: main_cases [of "Some v" lib])
    case (rejected r)
    with rejected_stdout [OF rejected(1)] show ?thesis by simp
  next
    case (no_destination req apobj calls)
    with register_start [OF no_destination(2)] show ?thesis
      by (simp add: fail_def error_obj_def stdout_of_append adds_stdout)
  next
    case (notify_raised req apobj added calls e)
    with register_start [OF notify_raised(2)] show ?thesis
      by (simp add: fail_def error_obj_def stdout_of_append adds_stdout)
  next
    case (sent req apobj added calls ok)
    with register_start [OF sent(2)] show ?thesis
      by (simp add: result_obj_def stdout_of_append adds_stdout)
  qed
  have iff: "stdout_of (trace (main lib stdin))
       = [PDict [(''success'', PBool False), (''error'', PStr ''Invalid JSON payload'')]]
      \<longleftrightarrow> stdin = None"
  proof (cases stdin)
    case None
    then show ?thesis by (simp add: none fail_def error_obj_def)
  next
    case (Some v)
    with only [of v] show ?thesis by simp
  qed
  from none iff show ?thesis
    by (simp add: fail_def error_obj_def stderr_of_def)
qed

text \<open>
  C1, as the code has it. When the value of \<^verbatim>\<open>urls\<close> is truthy and not a list (a
  non-empty string, a non-zero number, \<^verbatim>\<open>true\<close>, a non-empty object), the run
  consists of one write of the object
  \<^verbatim>\<open>{"success": false, "error": "Invalid urls: expected list"}\<close>, its flush and
  \<^verbatim>\<open>SystemExit(1)\<close>, whatever the other fields hold. A falsy value is replaced by
  the empty list on line 19: the run is the one of any payload without the key
  \<^verbatim>\<open>urls\<close> that agrees on every other key.
\<close>

theorem invalid_urls:
  "(truthy (dict_get payload ''urls'') \<and> \<not> is_list (dict_get payload ''urls'') \<longrightarrow>
      main lib (Some (PDict payload))
        = \<lparr>trace = [Stdout_write (PDict [(''success'', PBool False),
                                         (''error'', PStr ''Invalid urls: expected list'')]),
                     Stdout_flush],
           raised = SystemExit 1\<rparr>
      \<and> stdout_of (trace (main lib (Some (PDict payload))))
        = [PDict [(''success'', PBool False), (''error'', PStr ''Invalid urls: expected list'')]]
      \<and> exit_code (raised (main lib (Some (PDict payload)))) = 1
      \<and> stderr_of (main lib (Some (PDict payload))) = [])
   \<and> (\<not> truthy (dict_get payload ''urls'') \<and> map_of absent ''urls'' = None
       \<and> (\<forall>k. k \<noteq> ''urls'' \<longrightarrow> dict_get absent k = dict_get payload k) \<longrightarrow>
      main lib (Some (PDict payload)) = main lib (Some (PDict absent)))"
proof (intro conjI impI)
  assume u: "truthy (dict_get payload ''urls'') \<and> \<not> is_list (dict_get payload ''urls'')"
  then have "parse_request (Some (PDict payload)) = Inl (fail [] ''Invalid urls: expected list'')"
    by (cases "dict_get payload ''urls''") (simp_all add: parse_request_def py_or_def)
  then have m: "main lib (Some (PDict payload)) = fail [] ''Invalid urls: expected list''"
    by (simp add: main_def)
  show "main lib (Some (PDict payload))
        = \<lparr>trace = [Stdout_write (PDict [(''success'', PBool False),
                                         (''error'', PStr ''Invalid urls: expected list'')]),
                     Stdout_flush],
           raised = SystemExit 1\<rparr>"
    by (simp add: m fail_def error_obj_def)
  show "stdout_of (trace (main lib (Some (PDict payload))))
        = [PDict [(''success'', PBool False), (''error'', PStr ''Invalid urls: expected list'')]]"
    by (simp add: m fail_def error_obj_def)
  show "exit_code (raised (main lib (Some (PDict payload)))) = 1"
    by (simp add: m fail_def)
  show "stderr_of (main lib (Some (PDict payload))) = []"
    by (simp add: m fail_def stderr_of_def)
next
  assume a: "\<not> truthy (dict_get payload ''urls'') \<and> map_of absent ''urls'' = None
       \<and> (\<forall>k. k \<noteq> ''urls'' \<longrightarrow> dict_get absent k = dict_get payload k)"
  then have "py_or (dict_get payload ''urls'') (PList [])
      = py_or (dict_get absent ''urls'') (PList [])"
    by (simp add: py_or_def dict_get_def)
  moreover from a have "dict_get payload ''title'' = dict_get absent ''title''"
    and "dict_get payload ''body'' = dict_get absent ''body''"
    and "dict_get payload ''notifyType'' = dict_get absent ''notifyType''"
    by simp_all
  ultimately have "parse_request (Some (PDict payload)) = parse_request (Some (PDict absent))"
    by (rule parse_request_same)
  then show "main lib (Some (PDict payload)) = main lib (Some (PDict absent))"
    by (simp add: main_def)
qed

theorem invalid_urls_witness:
  "main sample_lib (Some (PDict [(''urls'', PStr ''mailto://a@b.c'')]))
     = \<lparr>trace = [Stdout_write (PDict [(''success'', PBool False),
                                      (''error'', PStr ''Invalid urls: expected list'')]),
                  Stdout_flush],
        raised = SystemExit 1\<rparr>
   \<and> exit_code (raised (main sample_lib (Some (PDict [(''urls'', PStr ''mailto://a@b.c'')])))) = 1
   \<and> main sample_lib (Some (PDict [(''urls'', PInt 0), (''title'', PStr ''hi'')]))
     = main sample_lib (Some (PDict [(''title'', PStr ''hi'')]))"
  using invalid_urls [where payload = "[(''urls'', PStr ''mailto://a@b.c'')]"
      and lib = sample_lib]
    invalid_urls [where payload = "[(''urls'', PInt 0), (''title'', PStr ''hi'')]"
      and absent = "[(''title'', PStr ''hi'')]" and lib = sample_lib]
  by (simp add: dict_get_def)

text \<open>
  C1 as stated fails: with \<^verbatim>\<open>{"urls": false}\<close> the key is present and its value is
  not a list, and the reported error is "No valid notification destinations".
\<close>

theorem falsy_urls_counterexample:
  "map_of [(''urls'', PBool False)] ''urls'' = Some (PBool False)
   \<and> \<not> is_list (PBool False)
   \<and> stdout_of (trace (main sample_lib (Some (PDict [(''urls'', PBool False)]))))
       = [PDict [(''success'', PBool False),
                (''error'', PStr ''No valid notification destinations'')]]
   \<and> stdout_of (trace (main sample_lib (Some (PDict [(''urls'', PBool False)]))))
       \<noteq> [PDict [(''success'', PBool False),
                (''error'', PStr ''Invalid urls: expected list'')]]"
  by code_simp

text \<open>
  C2, as the code has it. When \<^verbatim>\<open>urls\<close> is falsy or a list, \<^verbatim>\<open>notifyType\<close> is falsy
  or a string, and \<^verbatim>\<open>title\<close> or \<^verbatim>\<open>body\<close> is truthy and not a string, the run
  consists of one write of the object
  \<^verbatim>\<open>{"success": false, "error": "Invalid title/body"}\<close>, its flush and
  \<^verbatim>\<open>SystemExit(1)\<close>; the library is not called. A falsy \<^verbatim>\<open>title\<close> or \<^verbatim>\<open>body\<close>
  is replaced by the empty string on lines 23 and 24 and is not rejected.
\<close>

theorem invalid_title_body:
  assumes "\<not> truthy (dict_get payload ''urls'') \<or> is_list (dict_get payload ''urls'')"
    and "\<not> truthy (dict_get payload ''notifyType'') \<or> is_str (dict_get payload ''notifyType'')"
    and "(truthy (dict_get payload ''title'') \<and> \<not> is_str (dict_get payload ''title''))
       \<or> (truthy (dict_get payload ''body'') \<and> \<not> is_str (dict_get payload ''body''))"
  shows "main lib (Some (PDict payload))
      = \<lparr>trace = [Stdout_write (PDict [(''success'', PBool False),
                                       (''error'', PStr ''Invalid title/body'')]),
                   Stdout_flush],
         raised = SystemExit 1\<rparr>
    \<and> stdout_of (trace (main lib (Some (PDict payload))))
      = [PDict [(''success'', PBool False), (''error'', PStr ''Invalid title/body'')]]
    \<and> exit_code (raised (main lib (Some (PDict payload)))) = 1
    \<and> stderr_of (main lib (Some (PDict payload))) = []"
proof -
  obtain us where us: "py_or (dict_get payload ''urls'') (PList []) = PList us"
    using urls_list_or_falsy [OF assms(1)] by blast
  obtain s where s: "lower_method (py_or (dict_get payload ''notifyType'') (PStr ''info'')) = Inr s"
    using type_str_or_falsy [OF assms(2)] by blast
  have "\<not> is_str (py_or (dict_get payload ''title'') (PStr ''''))
      \<or> \<not> is_str (py_or (dict_get payload ''body'') (PStr ''''))"
    using assms(3) by (auto simp: py_or_truthy)
  then have "validate_fields payload us = Inl (fail [] ''Invalid title/body'')"
    using s
    by (cases "py_or (dict_get payload ''title'') (PStr [])";
        cases "py_or (dict_get payload ''body'') (PStr [])")
      (simp_all add: validate_fields_def)
  with us have "parse_request (Some (PDict payload)) = Inl (fail [] ''Invalid title/body'')"
    by (simp add: parse_request_def)
  then have "main lib (Some (PDict payload)) = fail [] ''Invalid title/body''"
    by (simp add: main_def)
  then show ?thesis
    by (simp add: fail_def error_obj_def stderr_of_def)
qed

theorem invalid_title_body_witness:
  "is_list (dict_get [(''urls'', PList [PStr ''mailto://a@b.c'']), (''title'', PInt 7)] ''urls'')
   \<and> \<not> truthy (dict_get [(''urls'', PList [PStr ''mailto://a@b.c'']), (''title'', PInt 7)] ''notifyType'')
   \<and> truthy (dict_get [(''urls'', PList [PStr ''mailto://a@b.c'']), (''title'', PInt 7)] ''title'')
   \<and> \<not> is_str (dict_get [(''urls'', PList [PStr ''mailto://a@b.c'']), (''title'', PInt 7)] ''title'')
   \<and> main sample_lib (Some (PDict [(''urls'', PList [PStr ''mailto://a@b.c'']), (''title'', PInt 7)]))
       = \<lparr>trace = [Stdout_write (PDict [(''success'', PBool False),
                                        (''error'', PStr ''Invalid title/body'')]),
                    Stdout_flush],
          raised = SystemExit 1\<rparr>
   \<and> exit_code (raised (main sample_lib
        (Some (PDict [(''urls'', PList [PStr ''mailto://a@b.c'']), (''title'', PInt 7)])))) = 1"
proof -
  have u: "\<not> truthy (dict_get [(''urls'', PList [PStr ''mailto://a@b.c'']), (''title'', PInt 7)] ''urls'')
      \<or> is_list (dict_get [(''urls'', PList [PStr ''mailto://a@b.c'']), (''title'', PInt 7)] ''urls'')"
    by (simp add: dict_get_def)
  have n: "\<not> truthy (dict_get [(''urls'', PList [PStr ''mailto://a@b.c'']), (''title'', PInt 7)] ''notifyType'')
      \<or> is_str (dict_get [(''urls'', PList [PStr ''mailto://a@b.c'']), (''title'', PInt 7)] ''notifyType'')"
    by (simp add: dict_get_def)
  have t: "(truthy (dict_get [(''urls'', PList [PStr ''mailto://a@b.c'']), (''title'', PInt 7)] ''title'')
       \<and> \<not> is_str (dict_get [(''urls'', PList [PStr ''mailto://a@b.c'']), (''title'', PInt 7)] ''title''))
      \<or> (truthy (dict_get [(''urls'', PList [PStr ''mailto://a@b.c'']), (''title'', PInt 7)] ''body'')
       \<and> \<not> is_str (dict_get [(''urls'', PList [PStr ''mailto://a@b.c'']), (''title'', PInt 7)] ''body''))"
    by (simp add: dict_get_def)
  show ?thesis
    using invalid_title_body [OF u n t, of sample_lib] by (simp add: dict_get_def)
qed

text \<open>
  C2 as stated fails: with \<^verbatim>\<open>{"title": 0}\<close> the title is present and not a string,
  and the reported error is "No valid notification destinations".
\<close>

theorem falsy_title_counterexample:
  "map_of [(''title'', PInt 0)] ''title'' = Some (PInt 0)
   \<and> \<not> is_str (PInt 0)
   \<and> stdout_of (trace (main sample_lib (Some (PDict [(''title'', PInt 0)]))))
       = [PDict [(''success'', PBool False),
                (''error'', PStr ''No valid notification destinations'')]]
   \<and> stdout_of (trace (main sample_lib (Some (PDict [(''title'', PInt 0)]))))
       \<noteq> [PDict [(''success'', PBool False),
                (''error'', PStr ''Invalid title/body'')]]"
  by code_simp

text \<open>
  C4. For a request that passed validation and a loop that registered at least one
  destination, so that \<^verbatim>\<open>notify\<close> is called: when the library's \<^verbatim>\<open>notify\<close> returns
  \<open>ok\<close> on the client the loop left, the run is the calls of the loop, that call, one
  write of the object \<^verbatim>\<open>{"success": ok, "destinations": added}\<close> and its flush,
  ended by \<^verbatim>\<open>SystemExit(0)\<close> when \<open>ok\<close> is true and \<^verbatim>\<open>SystemExit(1)\<close> otherwise.
  The number \<open>added\<close> is the number of \<^verbatim>\<open>add\<close> calls that returned true, and
  nothing reaches standard error.
\<close>

theorem dispatch_result:
  assumes "parse_request stdin = Inr req"
    and "register lib (urls req) (Apprise lib, 0, []) = (apobj, added, calls)"
    and "added \<noteq> 0"
    and "notify lib (title req) (body req) (notify_type req) apobj = Returned ok"
  shows "main lib stdin
      = \<lparr>trace = calls @
           [Notify (title req) (body req) (notify_type req) (Returned ok),
            Stdout_write (PDict [(''success'', PBool ok), (''destinations'', PInt (int added))]),
            Stdout_flush],
         raised = SystemExit (if ok then 0 else 1)\<rparr>
    \<and> stdout_of (trace (main lib stdin))
      = [PDict [(''success'', PBool ok), (''destinations'', PInt (int added))]]
    \<and> registered calls = added
    \<and> registered (trace (main lib stdin)) = added
    \<and> exit_code (raised (main lib stdin)) = (if ok then 0 else 1)
    \<and> stderr_of (main lib stdin) = []"
proof -
  from register_start [OF assms(2)]
  have adds: "list_all is_add calls" and n: "added = registered calls" by simp_all
  have m: "main lib stdin
      = \<lparr>trace = calls @
           [Notify (title req) (body req) (notify_type req) (Returned ok),
            Stdout_write (PDict [(''success'', PBool ok), (''destinations'', PInt (int added))]),
            Stdout_flush],
         raised = SystemExit (if ok then 0 else 1)\<rparr>"
    using assms by (simp add: main_def result_obj_def)
  show ?thesis
    unfolding m using adds n
    by (simp add: stdout_of_append adds_stdout registered_append stderr_of_def
        stderr_writes_append adds_stderr)
qed

theorem dispatch_result_witness:
  "main sample_lib
     (Some (PDict [(''urls'', PList [PStr ''  mailto://a@b.c '']),
                   (''title'', PStr ''hi''), (''body'', PStr ''there'')]))
     = \<lparr>trace = [Add ''mailto://a@b.c'' (Returned True),
                  Notify ''hi'' ''there'' ''info'' (Returned True),
                  Stdout_write (PDict [(''success'', PBool True), (''destinations'', PInt 1)]),
                  Stdout_flush],
        raised = SystemExit 0\<rparr>
   \<and> exit_code (raised (main sample_lib
     (Some (PDict [(''urls'', PList [PStr ''  mailto://a@b.c '']),
                   (''title'', PStr ''hi''), (''body'', PStr ''there'')])))) = 0
   \<and> main sample_lib
     (Some (PDict [(''urls'', PList [PStr ''  mailto://a@b.c '', PInt 3, PStr ''  '',
                                     PStr ''!x'', PStr ''json://h'']),
                   (''notifyType'', PStr ''URGENT''), (''title'', PStr ''hi''),
                   (''body'', PStr ''lost'')]))
     = \<lparr>trace = [Add ''mailto://a@b.c'' (Returned True), Add ''!x'' (Raised ''bad url''),
                  Add ''json://h'' (Returned False),
                  Notify ''hi'' ''lost'' ''info'' (Returned False),
                  Stdout_write (PDict [(''success'', PBool False), (''destinations'', PInt 1)]),
                  Stdout_flush],
        raised = SystemExit 1\<rparr>
   \<and> exit_code (raised (main sample_lib
     (Some (PDict [(''urls'', PList [PStr ''  mailto://a@b.c '', PInt 3, PStr ''  '',
                                     PStr ''!x'', PStr ''json://h'']),
                   (''notifyType'', PStr ''URGENT''), (''title'', PStr ''hi''),
                   (''body'', PStr ''lost'')])))) = 1"
proof -
  have one: "Suc 0 \<noteq> 0" by simp
  show ?thesis
    using dispatch_result [OF single_request single_register one single_notify]
      dispatch_result [OF mixed_request mixed_register one mixed_notify]
    by simp
qed

text \<open>
  C5. For a request that passed validation, when the loop registers no destination (the
  list is empty; or every entry is no string or a string of white space only; or the
  library never answers true; or simply no \<^verbatim>\<open>add\<close> call of the loop returned true),
  the run is the calls of the loop, one write of the object
  \<^verbatim>\<open>{"success": false, "error": "No valid notification destinations"}\<close> and its
  flush, ended by \<^verbatim>\<open>SystemExit(1)\<close>. The calls of the loop are \<^verbatim>\<open>add\<close> calls only,
  one for each string entry that is not empty once trimmed, so an entry the library
  rejects stops neither the loop nor the run and leaves no output of its own; nothing
  reaches standard error and \<^verbatim>\<open>notify\<close> is not called.
\<close>

theorem no_valid_destinations:
  assumes "parse_request stdin = Inr req"
    and "register lib (urls req) (Apprise lib, 0, []) = (apobj, added, calls)"
    and "urls req = []
       \<or> (\<forall>raw\<in>set (urls req). \<forall>s. raw = PStr s \<longrightarrow> list_all is_space s)
       \<or> (\<forall>url s. fst (add lib url s) \<noteq> Returned True)
       \<or> registered calls = 0"
  shows "main lib stdin
      = \<lparr>trace = calls @
           [Stdout_write (PDict [(''success'', PBool False),
                                 (''error'', PStr ''No valid notification destinations'')]),
            Stdout_flush],
         raised = SystemExit 1\<rparr>
    \<and> stdout_of (trace (main lib stdin))
      = [PDict [(''success'', PBool False),
                (''error'', PStr ''No valid notification destinations'')]]
    \<and> exit_code (raised (main lib stdin)) = 1
    \<and> stderr_of (main lib stdin) = []
    \<and> notify_calls (trace (main lib stdin)) = []
    \<and> add_calls (trace (main lib stdin)) = candidates (urls req)
    \<and> list_all is_add calls"
proof -
  from register_start [OF assms(2)]
  have adds: "list_all is_add calls" and n: "added = registered calls" by simp_all
  have "added = 0"
    using assms(3)
  proof (elim disjE)
    assume "urls req = []"
    with assms(2) show ?thesis by simp
  next
    assume "\<forall>raw\<in>set (urls req). \<forall>s. raw = PStr s \<longrightarrow> list_all is_space s"
    then have "list_all skipped (urls req)" by (rule skipped_blank)
    with assms(2) show ?thesis by (simp add: register_skipped)
  next
    assume "\<forall>url s. fst (add lib url s) \<noteq> Returned True"
    from register_rejected [OF this, of "urls req" "Apprise lib" 0 "[]"] assms(2)
    show ?thesis by simp
  next
    assume "registered calls = 0"
    with n show ?thesis by simp
  qed
  with assms(1,2)
  have m: "main lib stdin
      = \<lparr>trace = calls @
           [Stdout_write (PDict [(''success'', PBool False),
                                 (''error'', PStr ''No valid notification destinations'')]),
            Stdout_flush],
         raised = SystemExit 1\<rparr>"
    by (simp add: main_def fail_def error_obj_def)
  from register_add_calls [OF assms(2)]
  have c: "add_calls calls = candidates (urls req)" by simp
  show ?thesis
    unfolding m using adds c
    by (simp add: stdout_of_append adds_stdout stderr_of_def stderr_writes_append
        adds_stderr notify_calls_append adds_notify add_calls_append)
qed

theorem no_valid_destinations_witness:
  "main sample_lib (Some (PDict [(''urls'', PList [PInt 3,
            PStr [CHR 0x09, CHR 0x0A, CHR 0x0B, CHR 0x0C, CHR 0x0D, CHR 0x1C, CHR 0x1D, CHR 0x1E,
                  CHR 0x1F, CHR 0x20, CHR 0x85, CHR 0xA0],
            PNone, PStr []]), (''title'', PStr ''hi'')]))
     = \<lparr>trace = [Stdout_write (PDict [(''success'', PBool False),
                          (''error'', PStr ''No valid notification destinations'')]),
                  Stdout_flush],
        raised = SystemExit 1\<rparr>
   \<and> add_calls (trace (main sample_lib (Some (PDict [(''urls'', PList [PInt 3,
            PStr [CHR 0x09, CHR 0x0A, CHR 0x0B, CHR 0x0C, CHR 0x0D, CHR 0x1C, CHR 0x1D, CHR 0x1E,
                  CHR 0x1F, CHR 0x20, CHR 0x85, CHR 0xA0],
            PNone, PStr []]), (''title'', PStr ''hi'')])))) = []
   \<and> main sample_lib (Some (PDict [(''urls'', PList [PStr ''!x'', PStr (CHR 0xA0 # ''json://h'' @ [CHR 0x09])]), (''title'', PStr ''hi'')]))
     = \<lparr>trace = [Add ''!x'' (Raised ''bad url''), Add ''json://h'' (Returned False),
                  Stdout_write (PDict [(''success'', PBool False),
                          (''error'', PStr ''No valid notification destinations'')]),
                  Stdout_flush],
        raised = SystemExit 1\<rparr>
   \<and> exit_code (raised (main sample_lib (Some (PDict [(''urls'', PList [PStr ''!x'', PStr (CHR 0xA0 # ''json://h'' @ [CHR 0x09])]), (''title'', PStr ''hi'')])))) = 1"
  using no_valid_destinations [OF blank_request blank_register disjI2 [OF disjI1 [OF blank_entries]]]
    no_valid_destinations [OF refused_request refused_register
      disjI2 [OF disjI2 [OF disjI2 [OF refused_count]]]]
  by simp

text \<open>
  C10. Whenever an object with the key \<^verbatim>\<open>destinations\<close> is written to standard output,
  the input was a JSON object whose \<^verbatim>\<open>urls\<close> is a list, and the value under the key
  is an integer that is at least 1 and at most the length of that list.
\<close>

theorem destinations_bounds:
  assumes "Stdout_write (PDict kvs) \<in> set (trace (main lib stdin))"
    and "map_of kvs ''destinations'' = Some v"
  shows "\<exists>payload us n. stdin = Some (PDict payload) \<and> dict_get payload ''urls'' = PList us
    \<and> v = PInt n \<and> 1 \<le> n \<and> n \<le> int (length us)"
proof (cases rule: main_cases [of stdin lib])
  case (rejected r)
  with parse_request_Inl [OF rejected(1)] assms show ?thesis
    by (auto simp: fail_def uncaught_def error_obj_def)
next
  case (no_destination req apobj calls)
  with register_start [OF no_destination(2)] assms show ?thesis
    by (auto simp: fail_def error_obj_def list_all_iff)
next
  case (notify_raised req apobj added calls e)
  with register_start [OF notify_raised(2)] assms show ?thesis
    by (auto simp: fail_def error_obj_def list_all_iff)
next
  case (sent req apobj added calls ok)
  from register_start [OF sent(2)]
  have adds: "list_all is_add calls" and n: "added = registered calls" by simp_all
  from assms(1) sent(5) adds have "PDict kvs = result_obj ok added"
    by (auto simp: list_all_iff)
  with assms(2) have v: "v = PInt (int added)"
    by (simp add: result_obj_def)
  from register_add_calls [OF sent(2)] have "add_calls calls = candidates (urls req)"
    by simp
  then have "length calls \<le> length (urls req)"
    using add_calls_adds [OF adds] candidates_length [of "urls req"] by simp
  with n registered_le_length [of calls] have le: "added \<le> length (urls req)"
    by simp
  from parse_request_Inr [OF sent(1)] obtain payload
    where p: "stdin = Some (PDict payload)"
      and u: "py_or (dict_get payload ''urls'') (PList []) = PList (urls req)"
    by blast
  from le sent(3) have "urls req \<noteq> []" by auto
  with u have "dict_get payload ''urls'' = PList (urls req)"
    by (auto simp: py_or_def split: if_splits)
  with p v le sent(3) show ?thesis by auto
qed

theorem destinations_bounds_witness:
  "Stdout_write (PDict [(''success'', PBool False), (''destinations'', PInt 1)])
     \<in> set (trace (main sample_lib
         (Some (PDict [(''urls'', PList [PStr ''  mailto://a@b.c '', PInt 3, PStr ''  '',
                                         PStr ''!x'', PStr ''json://h'']),
                       (''notifyType'', PStr ''URGENT''), (''title'', PStr ''hi''),
                       (''body'', PStr ''lost'')]))))
   \<and> map_of [(''success'', PBool False), (''destinations'', PInt 1)] ''destinations''
       = Some (PInt 1)
   \<and> (\<exists>payload us n.
         Some (PDict [(''urls'', PList [PStr ''  mailto://a@b.c '', PInt 3, PStr ''  '',
                                        PStr ''!x'', PStr ''json://h'']),
                      (''notifyType'', PStr ''URGENT''), (''title'', PStr ''hi''),
                      (''body'', PStr ''lost'')]) = Some (PDict payload)
         \<and> dict_get payload ''urls'' = PList us \<and> PInt 1 = PInt n
         \<and> 1 \<le> n \<and> n \<le> int (length us))"
proof -
  have w: "Stdout_write (PDict [(''success'', PBool False), (''destinations'', PInt 1)])
     \<in> set (trace (main sample_lib
         (Some (PDict [(''urls'', PList [PStr ''  mailto://a@b.c '', PInt 3, PStr ''  '',
                                         PStr ''!x'', PStr ''json://h'']),
                       (''notifyType'', PStr ''URGENT''), (''title'', PStr ''hi''),
                       (''body'', PStr ''lost'')]))))"
    by (simp add: mixed_run result_obj_def)
  have m: "map_of [(''success'', PBool False), (''destinations'', PInt 1)] ''destinations''
       = Some (PInt 1)"
    by simp
  show ?thesis
    using w m destinations_bounds [OF w m] by blast
qed

text \<open>
  C9, as the code has it. The check of \<^verbatim>\<open>urls\<close> comes first: a truthy value that is
  not a list gives the error "Invalid urls: expected list" whatever \<^verbatim>\<open>title\<close> and
  \<^verbatim>\<open>body\<close> are, and no URL is registered. When \<^verbatim>\<open>title\<close> or \<^verbatim>\<open>body\<close> is truthy and
  not a string, the run ends before the loop: \<^verbatim>\<open>add\<close> and \<^verbatim>\<open>notify\<close> are never
  called.
\<close>

theorem validation_precedence:
  "(truthy (dict_get payload ''urls'') \<and> \<not> is_list (dict_get payload ''urls'') \<longrightarrow>
      stdout_of (trace (main lib (Some (PDict payload))))
        = [error_obj ''Invalid urls: expected list'']
      \<and> add_calls (trace (main lib (Some (PDict payload)))) = [])
   \<and> ((truthy (dict_get payload ''title'') \<and> \<not> is_str (dict_get payload ''title''))
       \<or> (truthy (dict_get payload ''body'') \<and> \<not> is_str (dict_get payload ''body'')) \<longrightarrow>
      add_calls (trace (main lib (Some (PDict payload)))) = []
      \<and> notify_calls (trace (main lib (Some (PDict payload)))) = [])"
proof (intro conjI impI)
  assume u: "truthy (dict_get payload ''urls'') \<and> \<not> is_list (dict_get payload ''urls'')"
  then have "parse_request (Some (PDict payload)) = Inl (fail [] ''Invalid urls: expected list'')"
    by (cases "dict_get payload ''urls''") (simp_all add: parse_request_def py_or_def)
  then have m: "main lib (Some (PDict payload)) = fail [] ''Invalid urls: expected list''"
    by (simp add: main_def)
  show "stdout_of (trace (main lib (Some (PDict payload))))
        = [error_obj ''Invalid urls: expected list'']"
    by (simp add: m fail_def)
  show "add_calls (trace (main lib (Some (PDict payload)))) = []"
    by (simp add: m fail_def)
next
  assume tb: "(truthy (dict_get payload ''title'') \<and> \<not> is_str (dict_get payload ''title''))
       \<or> (truthy (dict_get payload ''body'') \<and> \<not> is_str (dict_get payload ''body''))"
  from title_body_rejected [OF tb] obtain r
    where r: "parse_request (Some (PDict payload)) = Inl r" by blast
  then have m: "main lib (Some (PDict payload)) = r"
    by (simp add: main_def)
  from parse_request_Inl [OF r]
  have "add_calls (trace r) = [] \<and> notify_calls (trace r) = []"
    by (auto simp: fail_def uncaught_def)
  with m show "add_calls (trace (main lib (Some (PDict payload)))) = []"
    and "notify_calls (trace (main lib (Some (PDict payload)))) = []"
    by simp_all
qed

theorem validation_precedence_witness:
  "stdout_of (trace (main sample_lib
       (Some (PDict [(''urls'', PStr ''mailto://a@b.c''), (''title'', PInt 7)]))))
     = [error_obj ''Invalid urls: expected list'']
   \<and> add_calls (trace (main sample_lib
       (Some (PDict [(''urls'', PList [PStr ''mailto://a@b.c'']), (''title'', PInt 7)])))) = []"
  using validation_precedence [of "[(''urls'', PStr ''mailto://a@b.c''), (''title'', PInt 7)]" sample_lib]
    validation_precedence [of "[(''urls'', PList [PStr ''mailto://a@b.c'']), (''title'', PInt 7)]" sample_lib]
  by (simp add: dict_get_def)

text \<open>
  C9 as stated fails for a falsy title: with
  \<^verbatim>\<open>{"urls": ["mailto://a@b.c"], "title": 0}\<close> the title is not a string, line 23
  replaces it by the empty string, and the URL is registered.
\<close>

theorem falsy_title_registers_counterexample:
  "dict_get [(''urls'', PList [PStr ''mailto://a@b.c'']), (''title'', PInt 0)] ''title'' = PInt 0
   \<and> \<not> is_str (PInt 0)
   \<and> add_calls (trace (main sample_lib
       (Some (PDict [(''urls'', PList [PStr ''mailto://a@b.c'']), (''title'', PInt 0)]))))
     = [''mailto://a@b.c'']
   \<and> add_calls (trace (main sample_lib
       (Some (PDict [(''urls'', PList [PStr ''mailto://a@b.c'']), (''title'', PInt 0)]))))
     \<noteq> []"
  by code_simp

text \<open>
  C3 at the input \<^verbatim>\<open>{"urls": ["mailto://a@b.c"], "notifyType": 5}\<close>: the value 5 is
  not one of the four known types, and instead of falling back to \<^verbatim>\<open>info\<close> line 25
  calls \<^verbatim>\<open>lower\<close> on an int. The AttributeError escapes from \<^verbatim>\<open>main\<close> before
  anything is written and before the library is called.
\<close>

theorem notify_type_number_escapes:
  "main sample_lib
     (Some (PDict [(''urls'', PList [PStr ''mailto://a@b.c'']), (''notifyType'', PInt 5)]))
   = uncaught [] (AttributeError ''int'' ''lower'')"
  by code_simp

text \<open>
  C7 at the same input: the interpreter prints the traceback of the AttributeError on
  standard error although \<^verbatim>\<open>notify\<close> was never called, so standard error receives text
  on a path other than the failure of the dispatch.
\<close>

theorem traceback_without_dispatch:
  "stderr_of (main sample_lib
     (Some (PDict [(''urls'', PList [PStr ''mailto://a@b.c'']), (''notifyType'', PInt 5)])))
     = [Traceback (AttributeError ''int'' ''lower'')]
   \<and> notify_calls (trace (main sample_lib
     (Some (PDict [(''urls'', PList [PStr ''mailto://a@b.c'']), (''notifyType'', PInt 5)]))))
     = []"
  by code_simp

text \<open>
  C8 at the same input, and at the JSON document \<^verbatim>\<open>[]\<close> (a list has no
  \<^verbatim>\<open>get\<close>, line 19): the run ends with exit code 1 and no object on standard output.
\<close>

theorem no_stdout_object:
  "stdout_of (trace (main sample_lib
     (Some (PDict [(''urls'', PList [PStr ''mailto://a@b.c'']), (''notifyType'', PInt 5)]))))
     = []
   \<and> exit_code (raised (main sample_lib
     (Some (PDict [(''urls'', PList [PStr ''mailto://a@b.c'']), (''notifyType'', PInt 5)]))))
     = 1
   \<and> stdout_of (trace (main sample_lib (Some (PList [])))) = []
   \<and> exit_code (raised (main sample_lib (Some (PList [])))) = 1"
  by code_simp

end
